theory Spec2Isabelle
  imports Complex_Main "HOL-Library.Word" "HOL-Library.Char_ord"
begin

section \<open>The LXC driver of nomad: a shallow embedding\<close>

text \<open>
  The development follows the two versions of the LXC driver that the repository
  holds: the driver with rollback closures, volume validation, \<open>extractVgName\<close> and
  \<open>cleanupContainer\<close> (called the \<^emph>\<open>cleanup variant\<close> below), and
  \<open>client/driver/lxc.go\<close> (called the \<^emph>\<open>lxc.go variant\<close>), whose \<open>Kill\<close> destroys the
  container itself. Functions of the cleanup variant keep their source names; the
  functions of \<open>lxc.go\<close> that differ carry the suffix \<open>_lxc_go\<close>.

  Go strings are modelled as lists of bytes (\<open>string\<close>). The regular expression of
  \<open>extractVgName\<close> works on runes; on ASCII input, the only input LVM names allow,
  bytes and runes coincide.
\<close>

subsection \<open>Results: values, returned errors and run-time panics\<close>

text \<open>
  The errors that the driver returns or sends: one constructor for every \<open>fmt.Errorf\<close>
  site and for every error of a library call that is passed on as it is.
\<close>

datatype error =
    InvalidVolumeEntry string
  | AbsoluteMountPoint string
  | UnexpectedComponents string nat
  | CouldNotParseVg
  | DecodeError
  | InitContainerError
  | BadVerbosity
  | BadLogLevel
  | CreateContainerError
  | StartContainerError
  | MkdirError string
  | OnlyLVMSupported
  | LvCreateError
  | VgParseError string
  | LvRemoveError
  | CreateConfigError string
  | ChmodError
  | ParseTemplateError string
  | ExecTemplateError
  | LoadConfigError
  | CommonConfigError
  | StartExecuteError
  | LimitsError
  | RemoveFileError
  | StopError
  | DestroyError
  | FindProcessError
  | HandleParseError string
  | ContainerNotFound string

text \<open>
  A Go call either returns its value, returns an error, or panics (an index or slice
  out of range, a close of a closed channel).
\<close>

datatype 'a result = Ok 'a | Err error | Panic

subsection \<open>The string functions of Go that the driver uses\<close>

text \<open>
  \<open>strings.Split(s, sep)\<close> for a one-byte separator: never empty, \<open>[""]\<close> on \<open>""\<close>.
  A byte that is not the separator joins the first component of the rest (the rest is
  never without components, so the case \<open>[]\<close> does not arise).
\<close>

fun Split :: "string \<Rightarrow> char \<Rightarrow> string list" where
  "Split [] c = [[]]"
| "Split (x # xs) c =
     (if x = c then [] # Split xs c
      else (case Split xs c of
              [] \<Rightarrow> [[x]]
            | w # ws \<Rightarrow> (x # w) # ws))"

text \<open>\<open>strings.HasPrefix\<close>.\<close>

definition HasPrefix :: "string \<Rightarrow> string \<Rightarrow> bool" where
  "HasPrefix s p = (take (length p) s = p)"

text \<open>
  \<open>strings.LastIndex(s, sep)\<close> for a one-byte separator: the index of its last
  occurrence, \<open>-1\<close> when absent.
\<close>

definition LastIndex :: "string \<Rightarrow> char \<Rightarrow> int" where
  "LastIndex s c =
     (if c \<in> set s
      then int (length s) - 1 - int (length (takeWhile (\<lambda>x. x \<noteq> c) (rev s)))
      else - 1)"

text \<open>
  The slice expression \<open>s[lo:hi]\<close>: Go panics unless \<open>0 \<le> lo \<le> hi \<le> len(s)\<close>.
\<close>

definition slice :: "string \<Rightarrow> int \<Rightarrow> int \<Rightarrow> string result" where
  "slice s lo hi =
     (if 0 \<le> lo \<and> lo \<le> hi \<and> hi \<le> int (length s)
      then Ok (take (nat hi - nat lo) (drop (nat lo) s))
      else Panic)"

text \<open>\<open>strings.Replace(s, "-", "--", -1)\<close>, the closure \<open>tr\<close> of \<open>executeContainer\<close>.\<close>

fun tr :: "string \<Rightarrow> string" where
  "tr [] = []"
| "tr (x # xs) = (if x = CHR ''-'' then CHR ''-'' # CHR ''-'' # tr xs else x # tr xs)"

subsection \<open>The device-mapper regular expression\<close>

text \<open>
  \<open>devMapperRE\<close> is \<open>/dev/mapper/([a-zA-Z0-9_+.-]*[^-])-{1}[^-]\<close>. Go's \<open>regexp\<close> finds
  the leftmost match and, among the matches that start there, the one a backtracking
  matcher meets first: the greedy star takes as many characters as still let the rest
  match.
\<close>

definition inClass :: "char \<Rightarrow> bool" where
  "inClass c =
     ((CHR ''a'' \<le> c \<and> c \<le> CHR ''z'') \<or> (CHR ''A'' \<le> c \<and> c \<le> CHR ''Z'') \<or>
      (CHR ''0'' \<le> c \<and> c \<le> CHR ''9'') \<or>
      c = CHR ''_'' \<or> c = CHR ''+'' \<or> c = CHR ''.'' \<or> c = CHR ''-'')"

text \<open>The tail \<open>-{1}[^-]\<close> of the expression, tried at the start of a string.\<close>

fun sepFollows :: "string \<Rightarrow> bool" where
  "sepFollows (d # e # rest) = (d = CHR ''-'' \<and> e \<noteq> CHR ''-'')"
| "sepFollows _ = False"

text \<open>
  The group \<open>([a-zA-Z0-9_+.-]*[^-])\<close> followed by the tail, tried at the start of a
  string: the captured text, if any. The star first tries to take the character and
  goes on; only if that fails does \<open>[^-]\<close> take it.
\<close>

fun matchGroup :: "string \<Rightarrow> string option" where
  "matchGroup [] = None"
| "matchGroup (c # cs) =
     (case (if inClass c then matchGroup cs else None) of
        Some g \<Rightarrow> Some (c # g)
      | None \<Rightarrow> (if c \<noteq> CHR ''-'' \<and> sepFollows cs then Some [c] else None))"

text \<open>
  \<open>devMapperRE.FindAllStringSubmatch(s, 1)\<close>: the first group of the leftmost match,
  \<open>None\<close> for \<open>nil\<close>.
\<close>

fun devMapperRE :: "string \<Rightarrow> string option" where
  "devMapperRE [] = None"
| "devMapperRE (x # xs) =
     (case (if HasPrefix (x # xs) ''/dev/mapper/''
            then matchGroup (drop (length ''/dev/mapper/'') (x # xs)) else None) of
        Some g \<Rightarrow> Some g
      | None \<Rightarrow> devMapperRE xs)"

subsection \<open>\<open>extractVgName\<close>\<close>

definition extractVgName :: "string \<Rightarrow> string result" where
  "extractVgName baseLvName =
     (let vgName =
        (if \<not> HasPrefix baseLvName ''/'' then
           (let c = Split baseLvName CHR ''/'' in
            if length c \<noteq> 2 then Err (UnexpectedComponents baseLvName (length c))
            else Ok (c ! 0))
         else
           (case devMapperRE baseLvName of
              Some g \<Rightarrow> Ok g
            | None \<Rightarrow>
                (if HasPrefix baseLvName ''/dev/''
                 then slice baseLvName (int (length ''/dev/'')) (LastIndex baseLvName CHR ''/'')
                 else Ok [])))
      in case vgName of
           Ok v \<Rightarrow> (if length v = 0 then Err CouldNotParseVg else Ok v)
         | Err e \<Rightarrow> Err e
         | Panic \<Rightarrow> Panic)"

subsection \<open>\<open>validateVolumesConfig\<close>\<close>

text \<open>
  The decoded \<open>volumes\<close> array is a \<open>[]interface{}\<close>: an element is a string or a
  value of another type, on which the type assertion \<open>volDesc.(string)\<close> panics. The
  function only computes; it touches neither the file system nor the container.
\<close>

datatype iface = IString string | IOther

fun validateVolumesConfig :: "iface list \<Rightarrow> unit result" where
  "validateVolumesConfig [] = Ok ()"
| "validateVolumesConfig (IOther # volumes) = Panic"
| "validateVolumesConfig (IString volStr # volumes) =
     (let paths = Split volStr CHR '':'' in
      if length paths \<noteq> 2 then Err (InvalidVolumeEntry volStr)
      else if length (paths ! 0) = 0 \<or> length (paths ! 1) = 0
        then Err (InvalidVolumeEntry volStr)
      else if (paths ! 1) ! 0 = CHR ''/'' then Err (AbsoluteMountPoint (paths ! 1))
      else validateVolumesConfig volumes)"

text \<open>The two errors of the volume policy.\<close>

fun isVolumeConfigError :: "error \<Rightarrow> bool" where
  "isVolumeConfigError (InvalidVolumeEntry s) = True"
| "isVolumeConfigError (AbsoluteMountPoint s) = True"
| "isVolumeConfigError _ = False"

text \<open>
  The accepted volume specs, in the words of the volume policy: \<open>h:c\<close> with exactly one
  colon, both sides non-empty, and \<open>c\<close> not starting with a slash.
\<close>

definition acceptedVolumeSpec :: "string \<Rightarrow> bool" where
  "acceptedVolumeSpec s =
     (\<exists>h c. s = h @ CHR '':'' # c \<and> CHR '':'' \<notin> set h \<and> CHR '':'' \<notin> set c \<and>
            h \<noteq> [] \<and> c \<noteq> [] \<and> hd c \<noteq> CHR ''/'')"

subsection \<open>CPU rate accumulators\<close>

text \<open>
  Modelled from the spec: \<open>stats.CpuStats\<close> and its method \<open>Percent\<close> live in the
  package \<open>client/stats\<close>, which is not among the sources. The accumulator holds the
  last value and the last timestamp (nothing before the first sample); a new sample
  yields the delta of the ticks divided by the elapsed wall time, and \<open>0\<close> when there is
  no earlier sample. \<open>float64\<close> is idealised by the rationals (HOL's \<open>x / 0\<close> is \<open>0\<close>).
\<close>

type_synonym CpuStats = "(rat \<times> int) option"

text \<open>
  Modelled from the spec: \<open>stats.NewCpuStats\<close>, of the package \<open>client/stats\<close> that is
  not among the sources, gives an accumulator without an earlier sample.
\<close>

definition NewCpuStats :: CpuStats where
  "NewCpuStats = None"

text \<open>
  Modelled from the spec: \<open>CpuStats.Percent\<close>, of the package \<open>client/stats\<close> that is
  not among the sources, yields \<open>0\<close> on the first sample and afterwards the delta of
  the ticks divided by the elapsed wall time, and stores the sample.
\<close>

fun Percent :: "CpuStats \<Rightarrow> int \<Rightarrow> rat \<Rightarrow> rat \<times> CpuStats" where
  "Percent None now cpuTime = (0, Some (cpuTime, now))"
| "Percent (Some (lastValue, lastTimestamp)) now cpuTime =
     ((cpuTime - lastValue) / of_int (now - lastTimestamp), Some (cpuTime, now))"

text \<open>The conversion \<open>float64(x)\<close> of an \<open>int64\<close>, idealised.\<close>

definition float64 :: "64 word \<Rightarrow> rat" where
  "float64 x = of_int (sint x)"

subsection \<open>Handles\<close>

datatype chan = ChanOpen | ChanClosed

datatype WaitResult = WaitResult "error option"

record lxcDriverHandle =
  containerName :: string
  initPid :: int
  lxcPath :: string
  killTimeout :: int
  maxKillTimeout :: int
  totalCpuStats :: CpuStats
  userCpuStats :: CpuStats
  systemCpuStats :: CpuStats
  waitBuf :: "WaitResult list"
  waitCh :: chan
  doneCh :: chan

text \<open>
  The struct literal that \<open>startContainer\<close>, \<open>executeContainer\<close> and \<open>Open\<close> all
  build: fresh accumulators, \<open>waitCh\<close> and \<open>doneCh\<close> fresh with capacity one.
\<close>

definition newHandle :: "string \<Rightarrow> int \<Rightarrow> string \<Rightarrow> int \<Rightarrow> int \<Rightarrow> lxcDriverHandle" where
  "newHandle name pid path kt maxKt =
     \<lparr> containerName = name, initPid = pid, lxcPath = path,
       killTimeout = kt, maxKillTimeout = maxKt,
       totalCpuStats = NewCpuStats, userCpuStats = NewCpuStats,
       systemCpuStats = NewCpuStats,
       waitBuf = [], waitCh = ChanOpen, doneCh = ChanOpen \<rparr>"

subsection \<open>\<open>Stats\<close>\<close>

text \<open>
  \<open>strconv.ParseUint(s, 10, 64)\<close>: a non-empty string of decimal digits whose value
  fits 64 bits; no sign, no underscore. \<open>None\<close> is the error.
\<close>

fun digitsVal :: "string \<Rightarrow> nat \<Rightarrow> nat option" where
  "digitsVal [] acc = Some acc"
| "digitsVal (c # cs) acc =
     (if CHR ''0'' \<le> c \<and> c \<le> CHR ''9''
      then digitsVal cs (acc * 10 + (of_char c - of_char CHR ''0''))
      else None)"

definition ParseUint :: "string \<Rightarrow> 64 word option" where
  "ParseUint s =
     (if s = [] then None
      else case digitsVal s 0 of
             None \<Rightarrow> None
           | Some n \<Rightarrow> (if n < 2 ^ 64 then Some (word_of_nat n) else None))"

text \<open>\<open>keysToVal\<close>: \<open>None\<close> when the returned error is not nil.\<close>

definition keysToVal :: "string \<Rightarrow> (string \<times> 64 word) option" where
  "keysToVal line =
     (let tokens = Split line CHR '' '' in
      if length tokens \<noteq> 2 then None
      else case ParseUint (tokens ! 1) of
             None \<Rightarrow> None
           | Some val \<Rightarrow> Some (tokens ! 0, val))"

text \<open>The loop over the lines of \<open>memory.stat\<close>, on the map \<open>memData\<close>.\<close>

fun scanMemStat :: "string list \<Rightarrow> (string \<rightharpoonup> 64 word) \<Rightarrow> (string \<rightharpoonup> 64 word)" where
  "scanMemStat [] memData = memData"
| "scanMemStat (rawMemStat # rest) memData =
     (case keysToVal rawMemStat of
        None \<Rightarrow> scanMemStat rest memData
      | Some (key, val) \<Rightarrow>
          (if memData key \<noteq> None then scanMemStat rest (memData(key \<mapsto> val))
           else scanMemStat rest memData))"

text \<open>
  The loops over \<open>memory.max_usage_in_bytes\<close>, \<open>memory.kmem.usage_in_bytes\<close> and
  \<open>memory.kmem.max_usage_in_bytes\<close>, on the field they assign.
\<close>

fun scanUint :: "string list \<Rightarrow> 64 word \<Rightarrow> 64 word" where
  "scanUint [] field = field"
| "scanUint (raw # rest) field =
     (case ParseUint raw of
        None \<Rightarrow> scanUint rest field
      | Some val \<Rightarrow> scanUint rest val)"

text \<open>Reading a key of a Go map: the zero value when the key is absent.\<close>

definition mapGet :: "(string \<rightharpoonup> 64 word) \<Rightarrow> string \<Rightarrow> 64 word" where
  "mapGet m k = (case m k of None \<Rightarrow> 0 | Some v \<Rightarrow> v)"

record CpuStatsSnapshot =
  SystemMode :: rat
  UserMode :: rat
  PercentTotal :: rat
  TotalTicks :: rat

record MemoryStats =
  RSS :: "64 word"
  Cache :: "64 word"
  Swap :: "64 word"
  MaxUsage :: "64 word"
  KernelUsage :: "64 word"
  KernelMaxUsage :: "64 word"

record TaskResourceUsage =
  CpuStats :: CpuStatsSnapshot
  MemoryStats :: MemoryStats
  Timestamp :: int

text \<open>
  What the container and the clock answer during one call of \<open>Stats\<close>: the results of
  \<open>CPUStats()\<close> and \<open>CPUTime()\<close> (\<open>None\<close> for an error), the lines of each cgroup item
  (none when it cannot be read), \<open>time.Now()\<close> in \<open>Stats\<close> and in each of the three
  calls of \<open>Percent\<close>, in the order of the calls.
\<close>

record stats_env =
  envCPUStats :: "(string \<rightharpoonup> 64 word) option"
  envCPUTime :: "64 word option"
  envCgroupItem :: "string \<Rightarrow> string list"
  envNow :: int
  envNow1 :: int
  envNow2 :: int
  envNow3 :: int

text \<open>
  \<open>Stats\<close> returns the pair of the snapshot and the error, and the handle with its
  accumulators updated. The method \<open>Percent\<close> of the accumulators is the parameter
  \<open>percent\<close>: it gets the accumulator, the clock and the sample, and returns the
  percentage and the new accumulator. The constant lists \<open>Measured\<close> of the snapshot
  are left out.
\<close>

definition Stats ::
  "(CpuStats \<Rightarrow> int \<Rightarrow> rat \<Rightarrow> rat \<times> CpuStats) \<Rightarrow> stats_env \<Rightarrow> lxcDriverHandle \<Rightarrow>
     (TaskResourceUsage option \<times> error option) \<times> lxcDriverHandle" where
  "Stats percent env h =
     (case envCPUStats env of
        None \<Rightarrow> ((None, None), h)
      | Some cpuStats \<Rightarrow>
     (case envCPUTime env of
        None \<Rightarrow> ((None, None), h)
      | Some totalTime \<Rightarrow>
     (let t = envNow env;
          system = mapGet cpuStats ''system'';
          user = mapGet cpuStats ''user'';
          (systemMode, acc1) = percent (systemCpuStats h) (envNow1 env) (float64 system);
          h1 = h\<lparr>systemCpuStats := acc1\<rparr>;
          (userMode, acc2) = percent (systemCpuStats h1) (envNow2 env) (float64 user);
          h2 = h1\<lparr>systemCpuStats := acc2\<rparr>;
          (percentTotal, acc3) = percent (totalCpuStats h2) (envNow3 env) (float64 totalTime);
          h3 = h2\<lparr>totalCpuStats := acc3\<rparr>;
          cs = \<lparr> SystemMode = systemMode, UserMode = userMode, PercentTotal = percentTotal,
                 TotalTicks = float64 (user + system) \<rparr>;
          memData = scanMemStat (envCgroupItem env ''memory.stat'')
                      [''rss'' \<mapsto> 0, ''cache'' \<mapsto> 0, ''swap'' \<mapsto> 0];
          ms = \<lparr> RSS = mapGet memData ''rss'', Cache = mapGet memData ''cache'',
                 Swap = mapGet memData ''swap'', MaxUsage = 0, KernelUsage = 0,
                 KernelMaxUsage = 0 \<rparr>;
          ms1 = ms\<lparr>MaxUsage :=
                  scanUint (envCgroupItem env ''memory.max_usage_in_bytes'') (MaxUsage ms)\<rparr>;
          ms2 = ms1\<lparr>KernelUsage :=
                  scanUint (envCgroupItem env ''memory.kmem.usage_in_bytes'') (KernelUsage ms1)\<rparr>;
          ms3 = ms2\<lparr>KernelMaxUsage :=
                  scanUint (envCgroupItem env ''memory.kmem.max_usage_in_bytes'')
                    (KernelMaxUsage ms2)\<rparr>
      in ((Some \<lparr> CpuStats = cs, MemoryStats = ms3, Timestamp = t \<rparr>, None), h3))))"

subsection \<open>What the driver does to the world\<close>

text \<open>
  The calls on the container runtime, on processes, on channels, on LVM and on the
  file system, in the order in which a function makes them. Log lines are left out.
\<close>

datatype action =
    CallRunning | CallShutdown int | CallStop | CallWaitStopped | CallDestroy
  | CloseDoneCh | SendWaitCh WaitResult | CloseWaitCh
  | FindProcess int | Signal0 | TimerReset
  | CallCreate | CallStart | MkdirAll | LvCreate string string | LvRemove string
  | CreateConfigFile | Chmod | ParseFiles string | ExecuteTemplate string
  | LoadConfigFile | SetCommonContainerConfig | StartExecute "string list"
  | SetLimits | RemoveConfigFile | GoRun

text \<open>
  What the container runtime answers to a handle: whether the container runs, and
  whether \<open>Shutdown\<close>, \<open>Stop\<close>, \<open>Wait(STOPPED, 15s)\<close> and \<open>Destroy\<close> succeed.
\<close>

record container_env =
  envRunning :: bool
  envShutdownOk :: bool
  envStopOk :: bool
  envWaitStopped :: bool
  envDestroyOk :: bool

subsection \<open>\<open>Kill\<close>\<close>

text \<open>
  The cleanup variant: \<open>defer close(h.doneCh)\<close> runs on every return, and closing a
  closed channel panics.
\<close>

definition Kill ::
  "container_env \<Rightarrow> lxcDriverHandle \<Rightarrow> (unit result \<times> action list) \<times> lxcDriverHandle" where
  "Kill env h =
     (let (ret, acts) =
        (if \<not> envRunning env then (Ok (), [CallRunning])
         else if envShutdownOk env then (Ok (), [CallRunning, CallShutdown (killTimeout h)])
         else if envStopOk env
           then (Ok (), [CallRunning, CallShutdown (killTimeout h), CallStop])
         else (Err StopError, [CallRunning, CallShutdown (killTimeout h), CallStop]))
      in if doneCh h = ChanClosed then ((Panic, acts), h)
         else ((ret, acts @ [CloseDoneCh]), h\<lparr>doneCh := ChanClosed\<rparr>))"

text \<open>
  The lxc.go variant: \<open>Kill\<close> destroys the container, and closes \<open>doneCh\<close> only when
  both the stop and the destroy succeeded.
\<close>

definition Kill_lxc_go ::
  "container_env \<Rightarrow> lxcDriverHandle \<Rightarrow> (unit result \<times> action list) \<times> lxcDriverHandle" where
  "Kill_lxc_go env h =
     (let (stopErr, acts) =
        (if \<not> envRunning env then (False, [CallRunning])
         else if envShutdownOk env then (False, [CallRunning, CallShutdown (killTimeout h)])
         else if envStopOk env
           then (False, [CallRunning, CallShutdown (killTimeout h), CallStop])
         else (True, [CallRunning, CallShutdown (killTimeout h), CallStop]))
      in if stopErr then ((Err StopError, acts), h)
         else if \<not> envDestroyOk env then ((Err DestroyError, acts @ [CallDestroy]), h)
         else if doneCh h = ChanClosed then ((Panic, acts @ [CallDestroy]), h)
         else ((Ok (), acts @ [CallDestroy, CloseDoneCh]), h\<lparr>doneCh := ChanClosed\<rparr>))"

subsection \<open>\<open>cleanupContainer\<close> and the monitor \<open>run\<close>\<close>

definition cleanupContainer ::
  "container_env \<Rightarrow> lxcDriverHandle \<Rightarrow> unit result \<times> action list" where
  "cleanupContainer env h =
     (if \<not> envDestroyOk env then (Err DestroyError, [CallWaitStopped, CallDestroy])
      else (Ok (), [CallWaitStopped, CallDestroy]))"

text \<open>
  One wake-up of the \<open>select\<close> in \<open>run\<close>: the timer fired, with the answers of
  \<open>os.FindProcess\<close> and of \<open>process.Signal(0)\<close>, or \<open>doneCh\<close> was ready.
\<close>

datatype select_event = TimerFired bool bool | DoneChReady

text \<open>
  The \<open>for\<close>/\<open>select\<close> loop over a schedule of wake-ups: the result that the loop
  decides to send, if it leaves the loop within the schedule, and what it did.
\<close>

fun monitorLoop :: "select_event list \<Rightarrow> int \<Rightarrow> WaitResult option \<times> action list" where
  "monitorLoop [] pid = (None, [])"
| "monitorLoop (TimerFired findOk signalOk # rest) pid =
     (if \<not> findOk then (Some (WaitResult (Some FindProcessError)), [FindProcess pid])
      else if \<not> signalOk then (Some (WaitResult None), [FindProcess pid, Signal0])
      else (case monitorLoop rest pid of
              (w, acts) \<Rightarrow> (w, [FindProcess pid, Signal0, TimerReset] @ acts)))"
| "monitorLoop (DoneChReady # rest) pid = (Some (WaitResult None), [])"

text \<open>
  How a call of \<open>run\<close> stands after a schedule: still in its loop, blocked on the send
  (the buffer of capacity one is full), returned, or panicked (a send on, or a close
  of, a closed channel).
\<close>

datatype run_state = StillLooping | BlockedOnSend | Returned | Panicked

text \<open>
  The cleanup variant: the deferred function calls \<open>cleanupContainer\<close>, drops its
  error, and closes \<open>waitCh\<close>.
\<close>

definition run ::
  "container_env \<Rightarrow> select_event list \<Rightarrow> lxcDriverHandle \<Rightarrow>
     (run_state \<times> action list) \<times> lxcDriverHandle" where
  "run env schedule h =
     (case monitorLoop schedule (initPid h) of
        (None, acts) \<Rightarrow> ((StillLooping, acts), h)
      | (Some w, acts) \<Rightarrow>
          (if waitCh h = ChanClosed
             then ((Panicked, acts @ snd (cleanupContainer env h)), h)
           else if waitBuf h \<noteq> [] then ((BlockedOnSend, acts), h)
           else ((Returned, acts @ [SendWaitCh w] @ snd (cleanupContainer env h) @ [CloseWaitCh]),
                 h\<lparr>waitBuf := [w], waitCh := ChanClosed\<rparr>)))"

text \<open>The lxc.go variant: the deferred call only closes \<open>waitCh\<close>.\<close>

definition run_lxc_go ::
  "select_event list \<Rightarrow> lxcDriverHandle \<Rightarrow> (run_state \<times> action list) \<times> lxcDriverHandle" where
  "run_lxc_go schedule h =
     (case monitorLoop schedule (initPid h) of
        (None, acts) \<Rightarrow> ((StillLooping, acts), h)
      | (Some w, acts) \<Rightarrow>
          (if waitCh h = ChanClosed then ((Panicked, acts), h)
           else if waitBuf h \<noteq> [] then ((BlockedOnSend, acts), h)
           else ((Returned, acts @ [SendWaitCh w, CloseWaitCh]),
                 h\<lparr>waitBuf := [w], waitCh := ChanClosed\<rparr>)))"

subsection \<open>\<open>Open\<close> and \<open>Update\<close>\<close>

record lxcPID =
  ContainerName :: string
  InitPid :: int
  LxcPath :: string
  KillTimeout :: int

text \<open>
  \<open>Open\<close>: the decoded handle id (\<open>None\<close> when \<open>json.Unmarshal\<close> fails), the
  containers that \<open>lxc.Containers\<close> lists under a path, each with its init pid, and the
  driver's \<open>MaxKillTimeout\<close>.
\<close>

definition Open ::
  "(string \<Rightarrow> (string \<times> int) list) \<Rightarrow> int \<Rightarrow> string \<Rightarrow> lxcPID option \<Rightarrow>
     lxcDriverHandle result \<times> action list" where
  "Open containers maxKt handleID decoded =
     (case decoded of
        None \<Rightarrow> (Err (HandleParseError handleID), [])
      | Some pid \<Rightarrow>
          (case find (\<lambda>c. fst c = ContainerName pid) (containers (LxcPath pid)) of
             None \<Rightarrow> (Err (ContainerNotFound (ContainerName pid)), [])
           | Some c \<Rightarrow>
               (Ok (newHandle (fst c) (snd c) (LxcPath pid) (KillTimeout pid) maxKt), [GoRun])))"

text \<open>
  Modelled from the spec: \<open>GetKillTimeout\<close> is a helper of the \<open>driver\<close> package that
  is not among the sources; it clamps the requested timeout to the maximum.
\<close>

definition GetKillTimeout :: "int \<Rightarrow> int \<Rightarrow> int" where
  "GetKillTimeout desired maxKt = min desired maxKt"

definition Update :: "int \<Rightarrow> lxcDriverHandle \<Rightarrow> lxcDriverHandle" where
  "Update taskKillTimeout h = h\<lparr>killTimeout := GetKillTimeout taskKillTimeout (killTimeout h)\<rparr>"

subsection \<open>Provisioning: \<open>Start\<close>\<close>

text \<open>The fields of the task and of its driver configuration that \<open>Start\<close> reads.\<close>

record task =
  taskName :: string
  taskKillTimeout :: int
  Verbosity :: string
  LogLevel :: string
  UseExecute :: bool
  BaseRootFsPath :: string
  BaseConfigPath :: string
  CmdArgs :: "string list"

record driver =
  allocID :: string
  drvLxcPath :: string
  MaxKillTimeout :: int

text \<open>
  How an external command ends: with success, with an \<open>*exec.ExitError\<close>, or with
  another error (the binary cannot be started), on which the type assertion
  \<open>err.(*exec.ExitError)\<close> in the error message panics.
\<close>

datatype cmd_outcome = CmdOk | CmdExitError | CmdOtherError

text \<open>
  What the world answers during \<open>Start\<close> and its rollback. The body of
  \<open>setCommonContainerConfig\<close> and of \<open>setLimitsOnContainer\<close>, sequences of
  configuration assignments, is one step each.
\<close>

record start_env =
  decodeCommonOk :: bool
  newContainerOk :: bool
  decodeStartOk :: bool
  createOk :: bool
  startOk :: bool
  decodeExecuteOk :: bool
  mkdirOk :: bool
  lvcreate :: cmd_outcome
  createFileOk :: bool
  chmodOk :: bool
  parseFilesOk :: bool
  executeTemplateOk :: bool
  loadConfigOk :: bool
  setCommonOk :: bool
  startExecuteOk :: bool
  setLimitsOk :: bool
  parsedArgs :: "string list"
  cInitPid :: int
  lvremove :: cmd_outcome
  removeFileOk :: bool
  stopOk :: bool
  destroyOk :: bool

text \<open>The rollback closures that the stages return.\<close>

datatype cleanup =
    noCleanup
  | c_Destroy
  | stopAndDestroyCleanup
  | removeLVCleanup string string
  | removeConfigCleanup string string
  | stopAndRemoveConfigCleanup string string

definition run_removeLVCleanup :: "start_env \<Rightarrow> string \<Rightarrow> string \<Rightarrow> unit result \<times> action list" where
  "run_removeLVCleanup env vgName cname =
     (case lvremove env of
        CmdOk \<Rightarrow> (Ok (), [LvRemove (vgName @ [CHR ''/''] @ cname)])
      | CmdExitError \<Rightarrow> (Err LvRemoveError, [LvRemove (vgName @ [CHR ''/''] @ cname)])
      | CmdOtherError \<Rightarrow> (Panic, [LvRemove (vgName @ [CHR ''/''] @ cname)]))"

definition run_removeConfigCleanup ::
  "start_env \<Rightarrow> string \<Rightarrow> string \<Rightarrow> unit result \<times> action list" where
  "run_removeConfigCleanup env vgName cname =
     (case run_removeLVCleanup env vgName cname of
        (Ok u, acts) \<Rightarrow>
          (if removeFileOk env then (Ok (), acts @ [RemoveConfigFile])
           else (Err RemoveFileError, acts @ [RemoveConfigFile]))
      | (r, acts) \<Rightarrow> (r, acts))"

definition run_stopAndRemoveConfigCleanup ::
  "start_env \<Rightarrow> string \<Rightarrow> string \<Rightarrow> unit result \<times> action list" where
  "run_stopAndRemoveConfigCleanup env vgName cname =
     (case run_removeConfigCleanup env vgName cname of
        (Panic, acts) \<Rightarrow> (Panic, acts)
      | (r, acts) \<Rightarrow>
          (if stopOk env then (Ok (), acts @ [CallStop])
           else (Err StopError, acts @ [CallStop])))"

fun runCleanup :: "start_env \<Rightarrow> cleanup \<Rightarrow> unit result \<times> action list" where
  "runCleanup env noCleanup = (Ok (), [])"
| "runCleanup env c_Destroy =
     (if destroyOk env then (Ok (), [CallDestroy]) else (Err DestroyError, [CallDestroy]))"
| "runCleanup env stopAndDestroyCleanup =
     (if \<not> stopOk env then (Err StopError, [CallStop])
      else if destroyOk env then (Ok (), [CallStop, CallDestroy])
      else (Err DestroyError, [CallStop, CallDestroy]))"
| "runCleanup env (removeLVCleanup vgName cname) = run_removeLVCleanup env vgName cname"
| "runCleanup env (removeConfigCleanup vgName cname) = run_removeConfigCleanup env vgName cname"
| "runCleanup env (stopAndRemoveConfigCleanup vgName cname) =
     run_stopAndRemoveConfigCleanup env vgName cname"

definition getContainerName :: "driver \<Rightarrow> task \<Rightarrow> string" where
  "getContainerName d t = taskName t @ ''-'' @ allocID d"

definition mkHandle :: "start_env \<Rightarrow> driver \<Rightarrow> task \<Rightarrow> lxcDriverHandle" where
  "mkHandle env d t =
     newHandle (getContainerName d t) (cInitPid env) (drvLxcPath d)
       (GetKillTimeout (taskKillTimeout t) (MaxKillTimeout d)) (MaxKillTimeout d)"

text \<open>The template strategy.\<close>

definition startContainer ::
  "start_env \<Rightarrow> driver \<Rightarrow> task \<Rightarrow> (lxcDriverHandle result \<times> cleanup) \<times> action list" where
  "startContainer env d t =
     (if \<not> decodeStartOk env then ((Err DecodeError, noCleanup), [])
      else if \<not> createOk env then ((Err CreateContainerError, noCleanup), [CallCreate])
      else if \<not> setCommonOk env
        then ((Err CommonConfigError, c_Destroy), [CallCreate, SetCommonContainerConfig])
      else if \<not> startOk env
        then ((Err StartContainerError, c_Destroy),
              [CallCreate, SetCommonContainerConfig, CallStart])
      else if \<not> setLimitsOk env
        then ((Err LimitsError, stopAndDestroyCleanup),
              [CallCreate, SetCommonContainerConfig, CallStart, SetLimits])
      else ((Ok (mkHandle env d t), noCleanup),
            [CallCreate, SetCommonContainerConfig, CallStart, SetLimits, GoRun]))"

text \<open>
  The steps of the clone strategy after \<open>extractVgName\<close>, one after the other: the
  step's call, whether it succeeded, and the error and the rollback closure that
  \<open>executeContainer\<close> returns when it did not.
\<close>

definition cloneSteps ::
  "start_env \<Rightarrow> task \<Rightarrow> string \<Rightarrow> string \<Rightarrow> (action \<times> bool \<times> error \<times> cleanup) list" where
  "cloneSteps env t cname vgName =
     [(CreateConfigFile, createFileOk env, CreateConfigError cname,
         removeLVCleanup vgName cname),
      (Chmod, chmodOk env, ChmodError, removeConfigCleanup vgName cname),
      (ParseFiles (BaseConfigPath t), parseFilesOk env,
         ParseTemplateError (BaseConfigPath t), removeConfigCleanup vgName cname),
      (ExecuteTemplate (''lvm:/dev/mapper/'' @ tr vgName @ ''-'' @ tr cname),
         executeTemplateOk env, ExecTemplateError, removeConfigCleanup vgName cname),
      (LoadConfigFile, loadConfigOk env, LoadConfigError, removeConfigCleanup vgName cname),
      (SetCommonContainerConfig, setCommonOk env, CommonConfigError,
         removeConfigCleanup vgName cname),
      (StartExecute (parsedArgs env), startExecuteOk env, StartExecuteError,
         removeConfigCleanup vgName cname),
      (SetLimits, setLimitsOk env, LimitsError, stopAndRemoveConfigCleanup vgName cname)]"

text \<open>
  Running such steps: the first that fails ends the function with its error and its
  closure; after the last, the handle is built and the monitor spawned.
\<close>

fun runSteps ::
  "(action \<times> bool \<times> error \<times> cleanup) list \<Rightarrow> lxcDriverHandle \<Rightarrow> action list \<Rightarrow>
     (lxcDriverHandle result \<times> cleanup) \<times> action list" where
  "runSteps [] h done = ((Ok h, noCleanup), done @ [GoRun])"
| "runSteps ((a, ok, e, cl) # steps) h done =
     (if ok then runSteps steps h (done @ [a]) else ((Err e, cl), done @ [a]))"

text \<open>
  The clone strategy. \<open>BaseRootFsPath[:4]\<close> is a slice expression; \<open>BaseRootFsPath[4:]\<close>
  is reached only once it has succeeded.
\<close>

definition executeContainer ::
  "start_env \<Rightarrow> driver \<Rightarrow> task \<Rightarrow> (lxcDriverHandle result \<times> cleanup) \<times> action list" where
  "executeContainer env d t =
     (let cname = getContainerName d t in
      if \<not> decodeExecuteOk env then ((Err DecodeError, noCleanup), [])
      else if \<not> mkdirOk env then ((Err (MkdirError cname), noCleanup), [MkdirAll])
      else
        (case slice (BaseRootFsPath t) 0 4 of
           Panic \<Rightarrow> ((Panic, noCleanup), [MkdirAll])
         | Err e \<Rightarrow> ((Err e, noCleanup), [MkdirAll])
         | Ok pre \<Rightarrow>
             (if pre \<noteq> ''lvm:'' then ((Err OnlyLVMSupported, noCleanup), [MkdirAll])
              else
                (let baseLvName = drop 4 (BaseRootFsPath t) in
                 case lvcreate env of
                   CmdExitError \<Rightarrow>
                     ((Err LvCreateError, noCleanup), [MkdirAll, LvCreate cname baseLvName])
                 | CmdOtherError \<Rightarrow>
                     ((Panic, noCleanup), [MkdirAll, LvCreate cname baseLvName])
                 | CmdOk \<Rightarrow>
                     (case extractVgName baseLvName of
                        Panic \<Rightarrow> ((Panic, noCleanup), [MkdirAll, LvCreate cname baseLvName])
                      | Err e \<Rightarrow>
                          ((Err (VgParseError baseLvName), noCleanup),
                           [MkdirAll, LvCreate cname baseLvName])
                      | Ok vgName \<Rightarrow>
                          runSteps (cloneSteps env t cname vgName) (mkHandle env d t)
                            [MkdirAll, LvCreate cname baseLvName])))))"

definition startWithCleanup ::
  "start_env \<Rightarrow> driver \<Rightarrow> task \<Rightarrow> (lxcDriverHandle result \<times> cleanup) \<times> action list" where
  "startWithCleanup env d t =
     (if \<not> decodeCommonOk env then ((Err DecodeError, noCleanup), [])
      else if \<not> newContainerOk env then ((Err InitContainerError, noCleanup), [])
      else if Verbosity t \<noteq> ''verbose'' \<and> Verbosity t \<noteq> [] \<and> Verbosity t \<noteq> ''quiet''
        then ((Err BadVerbosity, noCleanup), [])
      else if LogLevel t \<noteq> ''trace'' \<and> LogLevel t \<noteq> ''debug'' \<and> LogLevel t \<noteq> ''info'' \<and>
              LogLevel t \<noteq> ''warn'' \<and> LogLevel t \<noteq> [] \<and> LogLevel t \<noteq> ''error''
        then ((Err BadLogLevel, noCleanup), [])
      else if UseExecute t then executeContainer env d t
      else startContainer env d t)"

text \<open>
  \<open>Start\<close>: on an error the returned rollback closure runs, and its own error is only
  logged.
\<close>

definition Start ::
  "start_env \<Rightarrow> driver \<Rightarrow> task \<Rightarrow> lxcDriverHandle result \<times> action list" where
  "Start env d t =
     (case startWithCleanup env d t of
        ((Err e, errCleanup), acts) \<Rightarrow>
          (case runCleanup env errCleanup of
             (Panic, cacts) \<Rightarrow> (Panic, acts @ cacts)
           | (r, cacts) \<Rightarrow> (Err e, acts @ cacts))
      | ((r, errCleanup), acts) \<Rightarrow> (r, acts))"

subsection \<open>Provisioning in the lxc.go variant\<close>

text \<open>
  \<open>strings.Index(s, sep)\<close> for a one-byte separator: the index of its first
  occurrence, \<open>-1\<close> when absent.
\<close>

definition Index :: "string \<Rightarrow> char \<Rightarrow> int" where
  "Index s c =
     (if c \<in> set s then int (length (takeWhile (\<lambda>x. x \<noteq> c) s)) else - 1)"

text \<open>
  No stage returns a rollback closure here, and \<open>Start\<close> runs none; \<open>StartExecute\<close>
  gets the configured arguments as they are.
\<close>

definition startContainer_lxc_go ::
  "start_env \<Rightarrow> driver \<Rightarrow> task \<Rightarrow> lxcDriverHandle result \<times> action list" where
  "startContainer_lxc_go env d t =
     (if \<not> decodeStartOk env then (Err DecodeError, [])
      else if \<not> createOk env then (Err CreateContainerError, [CallCreate])
      else if \<not> setCommonOk env
        then (Err CommonConfigError, [CallCreate, SetCommonContainerConfig])
      else if \<not> startOk env
        then (Err StartContainerError, [CallCreate, SetCommonContainerConfig, CallStart])
      else if \<not> setLimitsOk env
        then (Err LimitsError, [CallCreate, SetCommonContainerConfig, CallStart, SetLimits])
      else (Ok (mkHandle env d t),
            [CallCreate, SetCommonContainerConfig, CallStart, SetLimits, GoRun]))"

definition cloneSteps_lxc_go ::
  "start_env \<Rightarrow> task \<Rightarrow> string \<Rightarrow> string \<Rightarrow> (action \<times> bool \<times> error \<times> cleanup) list" where
  "cloneSteps_lxc_go env t cname vgName =
     [(CreateConfigFile, createFileOk env, CreateConfigError cname, noCleanup),
      (Chmod, chmodOk env, ChmodError, noCleanup),
      (ParseFiles (BaseConfigPath t), parseFilesOk env,
         ParseTemplateError (BaseConfigPath t), noCleanup),
      (ExecuteTemplate (''lvm:/dev/mapper/'' @ tr vgName @ ''-'' @ tr cname),
         executeTemplateOk env, ExecTemplateError, noCleanup),
      (LoadConfigFile, loadConfigOk env, LoadConfigError, noCleanup),
      (SetCommonContainerConfig, setCommonOk env, CommonConfigError, noCleanup),
      (StartExecute (CmdArgs t), startExecuteOk env, StartExecuteError, noCleanup),
      (SetLimits, setLimitsOk env, LimitsError, noCleanup)]"

definition executeContainer_lxc_go ::
  "start_env \<Rightarrow> driver \<Rightarrow> task \<Rightarrow> lxcDriverHandle result \<times> action list" where
  "executeContainer_lxc_go env d t =
     (let cname = getContainerName d t in
      if \<not> decodeExecuteOk env then (Err DecodeError, [])
      else if \<not> mkdirOk env then (Err (MkdirError cname), [MkdirAll])
      else
        (case slice (BaseRootFsPath t) 0 4 of
           Panic \<Rightarrow> (Panic, [MkdirAll])
         | Err e \<Rightarrow> (Err e, [MkdirAll])
         | Ok pre \<Rightarrow>
             (if pre \<noteq> ''lvm:'' then (Err OnlyLVMSupported, [MkdirAll])
              else
                (let baseLvName = drop 4 (BaseRootFsPath t) in
                 case lvcreate env of
                   CmdExitError \<Rightarrow> (Err LvCreateError, [MkdirAll, LvCreate cname baseLvName])
                 | CmdOtherError \<Rightarrow> (Panic, [MkdirAll, LvCreate cname baseLvName])
                 | CmdOk \<Rightarrow>
                     (case slice baseLvName 0 (Index baseLvName CHR ''/'') of
                        Panic \<Rightarrow> (Panic, [MkdirAll, LvCreate cname baseLvName])
                      | Err e \<Rightarrow> (Err e, [MkdirAll, LvCreate cname baseLvName])
                      | Ok vgName \<Rightarrow>
                          (if length vgName = 0
                           then (Err CouldNotParseVg, [MkdirAll, LvCreate cname baseLvName])
                           else (case runSteps (cloneSteps_lxc_go env t cname vgName)
                                        (mkHandle env d t)
                                        [MkdirAll, LvCreate cname baseLvName] of
                                   ((r, cl), acts) \<Rightarrow> (r, acts))))))))"

definition Start_lxc_go ::
  "start_env \<Rightarrow> driver \<Rightarrow> task \<Rightarrow> lxcDriverHandle result \<times> action list" where
  "Start_lxc_go env d t =
     (if \<not> decodeCommonOk env then (Err DecodeError, [])
      else if \<not> newContainerOk env then (Err InitContainerError, [])
      else if Verbosity t \<noteq> ''verbose'' \<and> Verbosity t \<noteq> [] \<and> Verbosity t \<noteq> ''quiet''
        then (Err BadVerbosity, [])
      else if LogLevel t \<noteq> ''trace'' \<and> LogLevel t \<noteq> ''debug'' \<and> LogLevel t \<noteq> ''info'' \<and>
              LogLevel t \<noteq> ''warn'' \<and> LogLevel t \<noteq> [] \<and> LogLevel t \<noteq> ''error''
        then (Err BadLogLevel, [])
      else if UseExecute t then executeContainer_lxc_go env d t
      else startContainer_lxc_go env d t)"

subsection \<open>Wake-ups and probes\<close>

text \<open>
  The wake-ups on which \<open>run\<close> leaves its loop: \<open>doneCh\<close> is ready, or the timer fired
  and the init process was not found or did not take the signal 0.
\<close>

fun leavesLoop :: "select_event \<Rightarrow> bool" where
  "leavesLoop DoneChReady = True"
| "leavesLoop (TimerFired findOk signalOk) = (\<not> (findOk \<and> signalOk))"

text \<open>What \<open>run\<close> does while it stays in its loop touches neither channel nor container.\<close>

fun isProbe :: "action \<Rightarrow> bool" where
  "isProbe (FindProcess pid) = True"
| "isProbe Signal0 = True"
| "isProbe TimerReset = True"
| "isProbe _ = False"

subsection \<open>Sample inputs\<close>

text \<open>A handle as \<open>Start\<close> builds it, and a container that answers every call.\<close>

definition sampleHandle :: lxcDriverHandle where
  "sampleHandle = newHandle ''web-a1'' 4242 ''/var/lib/lxc'' 5 30"

definition sampleContainer :: container_env where
  "sampleContainer =
     \<lparr> envRunning = True, envShutdownOk = True, envStopOk = True,
       envWaitStopped = True, envDestroyOk = True \<rparr>"

text \<open>
  A first sample of a container that has used 100 ticks in system mode and 250 in user
  mode; \<open>memory.stat\<close> has a line that is no pair and a line whose value is no number,
  \<open>memory.max_usage_in_bytes\<close> is garbled, and the kernel-memory files cannot be read.
\<close>

definition sampleCgroup :: "string \<Rightarrow> string list" where
  "sampleCgroup item =
     (if item = ''memory.stat'' then [''rss 42'', ''bogus'', ''cache x'', ''swap 7'']
      else if item = ''memory.max_usage_in_bytes'' then [''n/a'']
      else [])"

definition sampleStats :: stats_env where
  "sampleStats =
     \<lparr> envCPUStats = Some [''system'' \<mapsto> 100, ''user'' \<mapsto> 250],
       envCPUTime = Some 350,
       envCgroupItem = sampleCgroup,
       envNow = 1000, envNow1 = 1001, envNow2 = 1002, envNow3 = 1003 \<rparr>"

text \<open>
  A clone-mode task of the job \<open>web\<close> in the allocation \<open>a1\<close>, and a world in which
  every step of \<open>Start\<close> and of the rollback succeeds.
\<close>

definition sampleDriver :: driver where
  "sampleDriver = \<lparr> allocID = ''a1'', drvLxcPath = ''/var/lib/lxc'', MaxKillTimeout = 30 \<rparr>"

definition sampleTask :: "string \<Rightarrow> task" where
  "sampleTask rootfs =
     \<lparr> taskName = ''web'', taskKillTimeout = 5, Verbosity = [], LogLevel = [],
       UseExecute = True, BaseRootFsPath = rootfs, BaseConfigPath = ''/etc/lxc/base.conf'',
       CmdArgs = [''/bin/app''] \<rparr>"

definition sampleWorld :: start_env where
  "sampleWorld =
     \<lparr> decodeCommonOk = True, newContainerOk = True, decodeStartOk = True,
       createOk = True, startOk = True, decodeExecuteOk = True, mkdirOk = True,
       lvcreate = CmdOk, createFileOk = True, chmodOk = True, parseFilesOk = True,
       executeTemplateOk = True, loadConfigOk = True, setCommonOk = True,
       startExecuteOk = True, setLimitsOk = True, parsedArgs = [''/bin/app''],
       cInitPid = 4242, lvremove = CmdOk, removeFileOk = True, stopOk = True,
       destroyOk = True \<rparr>"

section \<open>Properties\<close>

subsection \<open>The volume-group parser\<close>

lemma inClass_dash: "inClass CHR ''-''"
  by (simp add: inClass_def)

lemma tr_no_single_dash: "\<not> sepFollows (tr xs)"
proof (cases xs)
  case Nil
  then show ?thesis by simp
next
  case (Cons a list)
  then show ?thesis by (cases "tr list") auto
qed

lemma matchGroup_tr: "matchGroup (tr n) = None"
  by (induction n) (auto simp: tr_no_single_dash)

text \<open>
  On a device-mapper path built from a volume group \<open>vg\<close> and a name \<open>n\<close> as
  \<open>executeContainer\<close> builds it, the expression captures the escaped volume group:
  the only dash that stands alone in the path is the separator.
\<close>

lemma matchGroup_escaped:
  assumes "vg \<noteq> []" "list_all inClass vg" "last vg \<noteq> CHR ''-''"
    and "n \<noteq> []" "hd n \<noteq> CHR ''-''"
  shows "matchGroup (tr vg @ CHR ''-'' # tr n) = Some (tr vg)"
  using assms(1,2,3)
proof (induction vg)
  case Nil
  then show ?case by simp
next
  case (Cons x vs)
  show ?case
  proof (cases "vs = []")
    case True
    with Cons.prems have x: "x \<noteq> CHR ''-''" by simp
    from assms(4,5) obtain e es where n: "n = e # es" "e \<noteq> CHR ''-''"
      by (cases n) auto
    have "matchGroup (CHR ''-'' # tr n) = None"
      by (simp add: matchGroup_tr)
    with True x n show ?thesis by simp
  next
    case False
    with Cons have "matchGroup (tr vs @ CHR ''-'' # tr n) = Some (tr vs)" by simp
    moreover from Cons.prems have "inClass x" by simp
    ultimately show ?thesis by (simp add: inClass_dash)
  qed
qed

lemma devMapperRE_escaped:
  assumes "vg \<noteq> []" "list_all inClass vg" "last vg \<noteq> CHR ''-''"
    and "n \<noteq> []" "hd n \<noteq> CHR ''-''"
  shows "devMapperRE (''/dev/mapper/'' @ tr vg @ CHR ''-'' # tr n) = Some (tr vg)"
  using matchGroup_escaped [OF assms] by (simp add: HasPrefix_def)

lemma tr_eq_Nil: "tr xs = [] \<longleftrightarrow> xs = []"
  by (cases xs) auto

lemma extractVgName_dm_path:
  assumes "vg \<noteq> []" "list_all inClass vg" "last vg \<noteq> CHR ''-''"
    and "n \<noteq> []" "hd n \<noteq> CHR ''-''"
  shows "extractVgName (''/dev/mapper/'' @ tr vg @ CHR ''-'' # tr n) = Ok (tr vg)"
  using devMapperRE_escaped [OF assms] assms(1)
  by (simp add: extractVgName_def HasPrefix_def tr_eq_Nil)

lemma length_tr: "length (tr xs) = length xs + length (filter (\<lambda>c. c = CHR ''-'') xs)"
  by (induction xs) auto

lemma tr_id_iff: "tr xs = xs \<longleftrightarrow> CHR ''-'' \<notin> set xs"
proof
  assume "tr xs = xs"
  then have "length (filter (\<lambda>c. c = CHR ''-'') xs) = 0"
    using length_tr [of xs] by simp
  then show "CHR ''-'' \<notin> set xs"
    by (auto simp: filter_empty_conv)
next
  assume "CHR ''-'' \<notin> set xs"
  then show "tr xs = xs" by (induction xs) auto
qed

text \<open>
  So the round trip gives back \<open>vg\<close> exactly when \<open>vg\<close> has no dash.
\<close>

lemma extractVgName_dm_roundtrip_iff:
  assumes "vg \<noteq> []" "list_all inClass vg" "last vg \<noteq> CHR ''-''"
    and "n \<noteq> []" "hd n \<noteq> CHR ''-''"
  shows "extractVgName (''/dev/mapper/'' @ tr vg @ CHR ''-'' # tr n) = Ok vg
           \<longleftrightarrow> CHR ''-'' \<notin> set vg"
  using extractVgName_dm_path [OF assms] by (simp add: tr_id_iff)

text \<open>The two forms without escaping: \<open>vg/lv\<close> and \<open>/dev/vg/lv\<close>.\<close>

lemma Split_no_sep: "c \<notin> set t \<Longrightarrow> Split t c = [t]"
  by (induction t) auto

lemma Split_one_sep: "c \<notin> set h \<Longrightarrow> c \<notin> set t \<Longrightarrow> Split (h @ c # t) c = [h, t]"
  by (induction h) (auto simp: Split_no_sep)

lemma Split_not_Nil: "Split s c \<noteq> []"
  by (induction s) (auto split: list.splits)

lemma extractVgName_vg_lv:
  assumes "vg \<noteq> []" "CHR ''/'' \<notin> set vg" "CHR ''/'' \<notin> set lv"
  shows "extractVgName (vg @ CHR ''/'' # lv) = Ok vg"
proof -
  from assms(1,2) have "\<not> HasPrefix (vg @ CHR ''/'' # lv) ''/''"
    by (cases vg) (auto simp: HasPrefix_def)
  with assms show ?thesis
    by (simp add: extractVgName_def Split_one_sep)
qed

lemma LastIndex_last_sep:
  assumes "c \<notin> set t"
  shows "LastIndex (p @ c # t) c = int (length p)"
proof -
  have "takeWhile (\<lambda>x. x \<noteq> c) (rev t @ c # rev p) = takeWhile (\<lambda>x. x \<noteq> c) (rev t)"
    by (rule takeWhile_tail) simp
  also from assms have "\<dots> = rev t"
    by (auto simp: takeWhile_eq_all_conv)
  finally show ?thesis by (simp add: LastIndex_def)
qed

lemma devMapperRE_SomeD:
  "devMapperRE s = Some g \<Longrightarrow> \<exists>pre suf. s = pre @ ''/dev/mapper/'' @ suf"
proof (induction s)
  case Nil
  then show ?case by simp
next
  case (Cons x xs)
  show ?case
  proof (cases "HasPrefix (x # xs) ''/dev/mapper/''")
    case True
    then have "x # xs = [] @ ''/dev/mapper/'' @ drop (length ''/dev/mapper/'') (x # xs)"
      unfolding HasPrefix_def by (metis append_Nil append_take_drop_id)
    then show ?thesis by blast
  next
    case False
    with Cons.prems have "devMapperRE xs = Some g"
      by (simp split: option.splits)
    with Cons.IH obtain pre suf where "xs = pre @ ''/dev/mapper/'' @ suf" by blast
    then have "x # xs = (x # pre) @ ''/dev/mapper/'' @ suf" by simp
    then show ?thesis by blast
  qed
qed

lemma devMapperRE_dev_vg_lv:
  assumes "CHR ''/'' \<notin> set vg" "CHR ''/'' \<notin> set lv" "vg \<noteq> ''mapper''"
  shows "devMapperRE (''/dev/'' @ vg @ CHR ''/'' # lv) = None"
proof (rule ccontr)
  let ?sl = "\<lambda>s. length (filter (\<lambda>c. c = CHR ''/'') s)"
  assume "devMapperRE (''/dev/'' @ vg @ CHR ''/'' # lv) \<noteq> None"
  then obtain pre suf where eq: "''/dev/'' @ vg @ CHR ''/'' # lv = pre @ ''/dev/mapper/'' @ suf"
    using devMapperRE_SomeD by fastforce
  from assms(1,2) have "?sl (''/dev/'' @ vg @ CHR ''/'' # lv) = 3"
    by (auto simp: filter_empty_conv)
  with eq have "?sl (pre @ ''/dev/mapper/'' @ suf) = 3" by simp
  then have "?sl pre = 0" by simp
  then have pre_no: "CHR ''/'' \<notin> set pre" by (auto simp: filter_empty_conv)
  have "pre = []"
  proof (cases pre)
    case Nil
    then show ?thesis .
  next
    case (Cons a as)
    with eq have "a = CHR ''/''" by simp
    with Cons pre_no show ?thesis by simp
  qed
  with eq have "vg @ CHR ''/'' # lv = ''mapper'' @ CHR ''/'' # suf" by simp
  then have "takeWhile (\<lambda>c. c \<noteq> CHR ''/'') (vg @ CHR ''/'' # lv)
      = takeWhile (\<lambda>c. c \<noteq> CHR ''/'') (''mapper'' @ CHR ''/'' # suf)" by simp
  moreover from assms(1) have "takeWhile (\<lambda>c. c \<noteq> CHR ''/'') (vg @ CHR ''/'' # lv) = vg"
    by (auto simp: takeWhile_tail)
  ultimately have "vg = ''mapper''" by simp
  with assms(3) show False by simp
qed

lemma extractVgName_dev_vg_lv:
  assumes "vg \<noteq> []" "CHR ''/'' \<notin> set vg" "CHR ''/'' \<notin> set lv" "vg \<noteq> ''mapper''"
  shows "extractVgName (''/dev/'' @ vg @ CHR ''/'' # lv) = Ok vg"
proof -
  have "LastIndex ((''/dev/'' @ vg) @ CHR ''/'' # lv) CHR ''/'' = int (length (''/dev/'' @ vg))"
    using assms(3) by (rule LastIndex_last_sep)
  then have "slice (''/dev/'' @ vg @ CHR ''/'' # lv) (int (length ''/dev/''))
               (LastIndex (''/dev/'' @ vg @ CHR ''/'' # lv) CHR ''/'') = Ok vg"
    by (simp add: slice_def)
  with devMapperRE_dev_vg_lv [OF assms(2,3,4)] assms(1) show ?thesis
    by (simp add: extractVgName_def HasPrefix_def)
qed

text \<open>
  C7. Round trip: escaping a volume group \<open>vg\<close> and a container name \<open>n\<close> with \<open>tr\<close>,
  building the device-mapper path and parsing it with \<open>extractVgName\<close> should give back
  \<open>vg\<close>. For the volume group \<open>my-vg\<close> and the container \<open>web-1\<close> the parser returns
  the escaped name \<open>my--vg\<close>, not \<open>my-vg\<close>.
\<close>

theorem extractVgName_roundtrip_returns_escaped:
  "extractVgName (''/dev/mapper/'' @ tr ''my-vg'' @ ''-'' @ tr ''web-1'') = Ok ''my--vg'' \<and>
   extractVgName (''/dev/mapper/'' @ tr ''my-vg'' @ ''-'' @ tr ''web-1'') \<noteq> Ok ''my-vg''"
  by (simp add: extractVgName_def HasPrefix_def inClass_def)

text \<open>
  C8. For a reference of each accepted form, \<open>extractVgName\<close> should return the
  unescaped volume group. It does for \<open>vg0/base\<close> and for \<open>/dev/vg0/base\<close>; for the
  device-mapper path \<open>/dev/mapper/my--vg-base\<close> of the volume \<open>base\<close> in the group
  \<open>my-vg\<close> it returns the escaped \<open>my--vg\<close>.
\<close>

theorem extractVgName_dm_form_escaped:
  "extractVgName ''vg0/base'' = Ok ''vg0'' \<and>
   extractVgName ''/dev/vg0/base'' = Ok ''vg0'' \<and>
   extractVgName ''/dev/mapper/my--vg-base'' = Ok ''my--vg''"
  by (simp add: extractVgName_def HasPrefix_def inClass_def slice_def LastIndex_def)

subsection \<open>Volume specs\<close>

lemma Split_length: "length (Split s c) = Suc (length (filter (\<lambda>x. x = c) s))"
  by (induction s) (auto simp: Split_not_Nil split: list.splits)

lemma Split_two_components:
  assumes "length (Split s c) = 2"
  shows "\<exists>h t. s = h @ c # t \<and> c \<notin> set h \<and> c \<notin> set t"
proof -
  from assms have one: "length (filter (\<lambda>x. x = c) s) = 1"
    by (simp add: Split_length)
  then have "filter (\<lambda>x. x = c) s \<noteq> []" by auto
  then have "c \<in> set s"
    by (auto simp: filter_empty_conv)
  then obtain h t where s: "s = h @ c # t" "c \<notin> set h"
    by (auto dest: split_list_first)
  with one have "length (filter (\<lambda>x. x = c) t) = 0"
    by (auto simp: filter_empty_conv)
  then have "c \<notin> set t" by (auto simp: filter_empty_conv)
  with s show ?thesis by blast
qed

text \<open>The checks that \<open>validateVolumesConfig\<close> makes on one spec are the three clauses.\<close>

lemma acceptedVolumeSpec_iff:
  "acceptedVolumeSpec s \<longleftrightarrow>
     length (Split s CHR '':'') = 2 \<and> Split s CHR '':'' ! 0 \<noteq> [] \<and>
     Split s CHR '':'' ! 1 \<noteq> [] \<and> (Split s CHR '':'' ! 1) ! 0 \<noteq> CHR ''/''"
proof
  assume "acceptedVolumeSpec s"
  then obtain h c where hc: "s = h @ CHR '':'' # c" "CHR '':'' \<notin> set h" "CHR '':'' \<notin> set c"
      "h \<noteq> []" "c \<noteq> []" "hd c \<noteq> CHR ''/''"
    unfolding acceptedVolumeSpec_def by blast
  then have "Split s CHR '':'' = [h, c]" by (simp add: Split_one_sep)
  with hc show "length (Split s CHR '':'') = 2 \<and> Split s CHR '':'' ! 0 \<noteq> [] \<and>
     Split s CHR '':'' ! 1 \<noteq> [] \<and> (Split s CHR '':'' ! 1) ! 0 \<noteq> CHR ''/''"
    by (simp add: hd_conv_nth)
next
  assume a: "length (Split s CHR '':'') = 2 \<and> Split s CHR '':'' ! 0 \<noteq> [] \<and>
     Split s CHR '':'' ! 1 \<noteq> [] \<and> (Split s CHR '':'' ! 1) ! 0 \<noteq> CHR ''/''"
  then obtain h c where hc: "s = h @ CHR '':'' # c" "CHR '':'' \<notin> set h" "CHR '':'' \<notin> set c"
    using Split_two_components by blast
  then have "Split s CHR '':'' = [h, c]" by (simp add: Split_one_sep)
  with a hc show "acceptedVolumeSpec s"
    unfolding acceptedVolumeSpec_def
    by (intro exI [of _ h] exI [of _ c]) (simp add: hd_conv_nth)
qed

lemma validateVolumesConfig_accepted:
  "acceptedVolumeSpec s \<Longrightarrow>
     validateVolumesConfig (IString s # volumes) = validateVolumesConfig volumes"
  by (simp add: acceptedVolumeSpec_iff Let_def)

lemma validateVolumesConfig_rejected:
  "\<not> acceptedVolumeSpec s \<Longrightarrow>
     validateVolumesConfig (IString s # volumes) = Err (InvalidVolumeEntry s) \<or>
     validateVolumesConfig (IString s # volumes) = Err (AbsoluteMountPoint (Split s CHR '':'' ! 1))"
  by (auto simp: acceptedVolumeSpec_iff Let_def)

text \<open>
  C9. \<open>validateVolumesConfig\<close> accepts a list of volume specs exactly when every spec
  is of the form \<open>h:c\<close> with one colon, \<open>h\<close> and \<open>c\<close> non-empty and \<open>c\<close> not starting
  with a slash; otherwise it returns one of the two errors of the volume policy. The
  function is a pure computation on its argument.
\<close>

theorem validateVolumesConfig_accepts_exactly:
  "(list_all acceptedVolumeSpec vs \<longrightarrow> validateVolumesConfig (map IString vs) = Ok ()) \<and>
   (\<not> list_all acceptedVolumeSpec vs \<longrightarrow>
      (\<exists>e. validateVolumesConfig (map IString vs) = Err e \<and> isVolumeConfigError e))"
proof (induction vs)
  case Nil
  show ?case by simp
next
  case (Cons s vs)
  show ?case
  proof (cases "acceptedVolumeSpec s")
    case True
    with Cons show ?thesis
      by (simp add: validateVolumesConfig_accepted del: validateVolumesConfig.simps)
  next
    case False
    from validateVolumesConfig_rejected [OF False, of "map IString vs"]
    have "\<exists>e. validateVolumesConfig (map IString (s # vs)) = Err e \<and> isVolumeConfigError e"
      by (auto simp del: validateVolumesConfig.simps)
    with False show ?thesis by (simp del: validateVolumesConfig.simps)
  qed
qed

theorem validateVolumesConfig_accepts_exactly_witness:
  "list_all acceptedVolumeSpec [''data:mnt'', ''/srv/logs:var/log''] \<and>
   validateVolumesConfig (map IString [''data:mnt'', ''/srv/logs:var/log'']) = Ok () \<and>
   \<not> list_all acceptedVolumeSpec [''data:mnt'', ''cache:/var/cache''] \<and>
   (\<exists>e. validateVolumesConfig (map IString [''data:mnt'', ''cache:/var/cache'']) = Err e \<and>
        isVolumeConfigError e)"
proof -
  have ok: "list_all acceptedVolumeSpec [''data:mnt'', ''/srv/logs:var/log'']"
    by (simp add: acceptedVolumeSpec_iff)
  have bad: "\<not> list_all acceptedVolumeSpec [''data:mnt'', ''cache:/var/cache'']"
    by (simp add: acceptedVolumeSpec_iff)
  from ok bad
    validateVolumesConfig_accepts_exactly [of "[''data:mnt'', ''/srv/logs:var/log'']"]
    validateVolumesConfig_accepts_exactly [of "[''data:mnt'', ''cache:/var/cache'']"]
  show ?thesis by blast
qed

subsection \<open>\<open>Stats\<close>\<close>

lemma scanUint_skips: "scanUint (filter (\<lambda>l. ParseUint l \<noteq> None) ls) f = scanUint ls f"
  by (induction ls arbitrary: f) (auto split: option.splits)

lemma scanUint_all_malformed: "list_all (\<lambda>l. ParseUint l = None) ls \<Longrightarrow> scanUint ls f = f"
  by (induction ls arbitrary: f) auto

lemma scanMemStat_skips:
  "scanMemStat (filter (\<lambda>l. keysToVal l \<noteq> None) ls) m = scanMemStat ls m"
  by (induction ls arbitrary: m) (auto split: option.splits)

lemma scanMemStat_all_malformed:
  "list_all (\<lambda>l. keysToVal l = None) ls \<Longrightarrow> scanMemStat ls m = m"
  by (induction ls arbitrary: m) auto

text \<open>The snapshot only reads the four cgroup items.\<close>

lemma Stats_skips_malformed:
  "fst (Stats P (env\<lparr>envCgroupItem := \<lambda>item.
          filter (\<lambda>l. if item = ''memory.stat'' then keysToVal l \<noteq> None
                      else ParseUint l \<noteq> None) (envCgroupItem env item)\<rparr>) h)
     = fst (Stats P env h)"
  by (simp add: Stats_def Let_def scanUint_skips scanMemStat_skips
           del: not_None_eq split: option.splits prod.splits)

lemma Stats_snapshot_None:
  "(fst (fst (Stats P env h)) = None) = (envCPUStats env = None \<or> envCPUTime env = None)"
  by (simp add: Stats_def Let_def split: option.splits prod.splits)

lemma Stats_error_None: "snd (fst (Stats P env h)) = None"
  by (simp add: Stats_def Let_def split: option.splits prod.splits)

lemma Stats_memory_defaults:
  assumes "fst (fst (Stats P env h)) = Some u"
  shows "(list_all (\<lambda>l. keysToVal l = None) (envCgroupItem env ''memory.stat'') \<longrightarrow>
            RSS (MemoryStats u) = 0 \<and> Cache (MemoryStats u) = 0 \<and> Swap (MemoryStats u) = 0)"
    and "(list_all (\<lambda>l. ParseUint l = None) (envCgroupItem env ''memory.max_usage_in_bytes'') \<longrightarrow>
            MaxUsage (MemoryStats u) = 0)"
    and "(list_all (\<lambda>l. ParseUint l = None) (envCgroupItem env ''memory.kmem.usage_in_bytes'') \<longrightarrow>
            KernelUsage (MemoryStats u) = 0)"
    and "(list_all (\<lambda>l. ParseUint l = None)
            (envCgroupItem env ''memory.kmem.max_usage_in_bytes'') \<longrightarrow>
            KernelMaxUsage (MemoryStats u) = 0)"
  using assms
  by (auto simp: Stats_def Let_def mapGet_def scanUint_all_malformed scanMemStat_all_malformed
           split: option.splits prod.splits)

text \<open>
  C10. \<open>Stats\<close> never returns an error. It returns no snapshot exactly when the CPU
  statistics or the CPU time cannot be read; otherwise it returns a snapshot, for which
  the lines of the cgroup items that do not parse are skipped (removing them changes
  nothing), and a memory field for which no line parses keeps its default \<open>0\<close>.
\<close>

theorem Stats_never_returns_error:
  "snd (fst (Stats P env h)) = None \<and>
   (fst (fst (Stats P env h)) = None) = (envCPUStats env = None \<or> envCPUTime env = None) \<and>
   fst (Stats P (env\<lparr>envCgroupItem := \<lambda>item.
          filter (\<lambda>l. if item = ''memory.stat'' then keysToVal l \<noteq> None
                      else ParseUint l \<noteq> None) (envCgroupItem env item)\<rparr>) h)
     = fst (Stats P env h) \<and>
   (\<forall>u. fst (fst (Stats P env h)) = Some u \<longrightarrow>
      (list_all (\<lambda>l. keysToVal l = None) (envCgroupItem env ''memory.stat'') \<longrightarrow>
         RSS (MemoryStats u) = 0 \<and> Cache (MemoryStats u) = 0 \<and> Swap (MemoryStats u) = 0) \<and>
      (list_all (\<lambda>l. ParseUint l = None) (envCgroupItem env ''memory.max_usage_in_bytes'') \<longrightarrow>
         MaxUsage (MemoryStats u) = 0) \<and>
      (list_all (\<lambda>l. ParseUint l = None) (envCgroupItem env ''memory.kmem.usage_in_bytes'') \<longrightarrow>
         KernelUsage (MemoryStats u) = 0) \<and>
      (list_all (\<lambda>l. ParseUint l = None)
         (envCgroupItem env ''memory.kmem.max_usage_in_bytes'') \<longrightarrow>
         KernelMaxUsage (MemoryStats u) = 0))"
proof -
  have defaults: "\<forall>u. fst (fst (Stats P env h)) = Some u \<longrightarrow>
      (list_all (\<lambda>l. keysToVal l = None) (envCgroupItem env ''memory.stat'') \<longrightarrow>
         RSS (MemoryStats u) = 0 \<and> Cache (MemoryStats u) = 0 \<and> Swap (MemoryStats u) = 0) \<and>
      (list_all (\<lambda>l. ParseUint l = None) (envCgroupItem env ''memory.max_usage_in_bytes'') \<longrightarrow>
         MaxUsage (MemoryStats u) = 0) \<and>
      (list_all (\<lambda>l. ParseUint l = None) (envCgroupItem env ''memory.kmem.usage_in_bytes'') \<longrightarrow>
         KernelUsage (MemoryStats u) = 0) \<and>
      (list_all (\<lambda>l. ParseUint l = None)
         (envCgroupItem env ''memory.kmem.max_usage_in_bytes'') \<longrightarrow>
         KernelMaxUsage (MemoryStats u) = 0)"
  proof (intro allI impI)
    fix u
    assume u: "fst (fst (Stats P env h)) = Some u"
    from Stats_memory_defaults [OF u] show
     "(list_all (\<lambda>l. keysToVal l = None) (envCgroupItem env ''memory.stat'') \<longrightarrow>
         RSS (MemoryStats u) = 0 \<and> Cache (MemoryStats u) = 0 \<and> Swap (MemoryStats u) = 0) \<and>
      (list_all (\<lambda>l. ParseUint l = None) (envCgroupItem env ''memory.max_usage_in_bytes'') \<longrightarrow>
         MaxUsage (MemoryStats u) = 0) \<and>
      (list_all (\<lambda>l. ParseUint l = None) (envCgroupItem env ''memory.kmem.usage_in_bytes'') \<longrightarrow>
         KernelUsage (MemoryStats u) = 0) \<and>
      (list_all (\<lambda>l. ParseUint l = None)
         (envCgroupItem env ''memory.kmem.max_usage_in_bytes'') \<longrightarrow>
         KernelMaxUsage (MemoryStats u) = 0)"
      by (intro conjI)
  qed
  from Stats_error_None [of P env h] Stats_snapshot_None [of P env h]
    Stats_skips_malformed [of P env h] defaults
  show ?thesis by (intro conjI)
qed

lemma sampleStats_memory:
  "MemoryStats (the (fst (fst (Stats Percent sampleStats sampleHandle)))) =
     \<lparr> RSS = 42, Cache = 0, Swap = 7, MaxUsage = 0, KernelUsage = 0, KernelMaxUsage = 0 \<rparr>"
  by (simp add: Stats_def Let_def sampleStats_def sampleCgroup_def sampleHandle_def
        newHandle_def NewCpuStats_def mapGet_def keysToVal_def ParseUint_def)

theorem Stats_never_returns_error_witness:
  "list_all (\<lambda>l. ParseUint l = None) (envCgroupItem sampleStats ''memory.max_usage_in_bytes'') \<and>
   list_all (\<lambda>l. ParseUint l = None) (envCgroupItem sampleStats ''memory.kmem.usage_in_bytes'') \<and>
   fst (fst (Stats Percent sampleStats sampleHandle)) \<noteq> None \<and>
   snd (fst (Stats Percent sampleStats sampleHandle)) = None \<and>
   MaxUsage (MemoryStats (the (fst (fst (Stats Percent sampleStats sampleHandle))))) = 0 \<and>
   KernelUsage (MemoryStats (the (fst (fst (Stats Percent sampleStats sampleHandle))))) = 0 \<and>
   RSS (MemoryStats (the (fst (fst (Stats Percent sampleStats sampleHandle))))) = 42"
proof -
  have a: "list_all (\<lambda>l. ParseUint l = None)
             (envCgroupItem sampleStats ''memory.max_usage_in_bytes'')"
    by (simp add: sampleStats_def sampleCgroup_def ParseUint_def)
  have b: "list_all (\<lambda>l. ParseUint l = None)
             (envCgroupItem sampleStats ''memory.kmem.usage_in_bytes'')"
    by (simp add: sampleStats_def sampleCgroup_def)
  have c: "envCPUStats sampleStats \<noteq> None \<and> envCPUTime sampleStats \<noteq> None"
    by (simp add: sampleStats_def)
  from a b c Stats_never_returns_error [of Percent sampleStats sampleHandle]
  show ?thesis by (auto simp: sampleStats_memory)
qed

text \<open>
  The CPU fields: \<open>Stats\<close> feeds the system accumulator twice, first with the system
  ticks and then with the user ticks, and never touches the user accumulator.
\<close>

lemma Stats_userCpuStats_untouched: "userCpuStats (snd (Stats P env h)) = userCpuStats h"
  by (simp add: Stats_def Let_def split: option.splits prod.splits)

lemma Stats_UserMode_from_system_accumulator:
  assumes "envCPUStats env = Some cpuStats" "envCPUTime env = Some totalTime"
  shows "UserMode (CpuStats (the (fst (fst (Stats P env h))))) =
           fst (P (snd (P (systemCpuStats h) (envNow1 env)
                          (float64 (mapGet cpuStats ''system''))))
                  (envNow2 env) (float64 (mapGet cpuStats ''user'')))"
  using assms by (simp add: Stats_def Let_def split: prod.splits)

text \<open>
  C6. Each CPU percentage should come from its own accumulator, and the first sample
  of a fresh handle should give 0 for all three. Whatever \<open>Percent\<close> computes, \<open>Stats\<close>
  leaves the user accumulator as it was and takes the user percentage from the system
  accumulator, as the call just before left it. With an accumulator that divides the
  delta of the ticks by the elapsed time, the first sample of a fresh handle, with 100
  system ticks and 250 user ticks, gives 0 for the system and the total percentage but
  150 for the user percentage: the rate of the user ticks against the system ticks
  stored a moment before. The user accumulator is still empty afterwards, and the
  system accumulator holds the user ticks.
\<close>

theorem Stats_user_mode_uses_system_accumulator:
  "userCpuStats (snd (Stats P env h)) = userCpuStats h \<and>
   map_option (\<lambda>u. UserMode (CpuStats u)) (fst (fst (Stats P env h))) =
     (case envCPUStats env of
        None \<Rightarrow> None
      | Some cpuStats \<Rightarrow>
          (case envCPUTime env of
             None \<Rightarrow> None
           | Some totalTime \<Rightarrow>
               Some (fst (P (snd (P (systemCpuStats h) (envNow1 env)
                                    (float64 (mapGet cpuStats ''system''))))
                            (envNow2 env) (float64 (mapGet cpuStats ''user'')))))) \<and>
   map_option CpuStats (fst (fst (Stats Percent sampleStats sampleHandle))) =
     Some \<lparr> SystemMode = 0, UserMode = 150, PercentTotal = 0, TotalTicks = 350 \<rparr> \<and>
   userCpuStats (snd (Stats Percent sampleStats sampleHandle)) = NewCpuStats \<and>
   systemCpuStats (snd (Stats Percent sampleStats sampleHandle)) = Some (250, 1002) \<and>
   totalCpuStats (snd (Stats Percent sampleStats sampleHandle)) = Some (350, 1003)"
proof (intro conjI)
  show "userCpuStats (snd (Stats P env h)) = userCpuStats h"
    by (rule Stats_userCpuStats_untouched)
  show "map_option (\<lambda>u. UserMode (CpuStats u)) (fst (fst (Stats P env h))) =
     (case envCPUStats env of
        None \<Rightarrow> None
      | Some cpuStats \<Rightarrow>
          (case envCPUTime env of
             None \<Rightarrow> None
           | Some totalTime \<Rightarrow>
               Some (fst (P (snd (P (systemCpuStats h) (envNow1 env)
                                    (float64 (mapGet cpuStats ''system''))))
                            (envNow2 env) (float64 (mapGet cpuStats ''user''))))))"
    by (simp add: Stats_def Let_def split: option.splits prod.splits)
  show "map_option CpuStats (fst (fst (Stats Percent sampleStats sampleHandle))) =
     Some \<lparr> SystemMode = 0, UserMode = 150, PercentTotal = 0, TotalTicks = 350 \<rparr>"
    by (simp add: Stats_def Let_def sampleStats_def sampleHandle_def newHandle_def
          NewCpuStats_def mapGet_def float64_def)
  show "userCpuStats (snd (Stats Percent sampleStats sampleHandle)) = NewCpuStats"
    by (simp add: Stats_userCpuStats_untouched sampleHandle_def newHandle_def)
  show "systemCpuStats (snd (Stats Percent sampleStats sampleHandle)) = Some (250, 1002)"
    by (simp add: Stats_def Let_def sampleStats_def sampleHandle_def newHandle_def
          NewCpuStats_def mapGet_def float64_def)
  show "totalCpuStats (snd (Stats Percent sampleStats sampleHandle)) = Some (350, 1003)"
    by (simp add: Stats_def Let_def sampleStats_def sampleHandle_def newHandle_def
          NewCpuStats_def mapGet_def float64_def)
qed

subsection \<open>\<open>Kill\<close> and the monitor\<close>

lemma monitorLoop_probes: "list_all isProbe (snd (monitorLoop schedule pid))"
  by (induction schedule pid rule: monitorLoop.induct) (auto split: prod.splits)

lemma monitorLoop_no_destroy: "CallDestroy \<notin> set (snd (monitorLoop schedule pid))"
  using monitorLoop_probes [of schedule pid] by (auto simp: list_all_iff)

lemma monitorLoop_leaves:
  "list_ex leavesLoop schedule \<Longrightarrow> \<exists>w. fst (monitorLoop schedule pid) = Some w"
  by (induction schedule pid rule: monitorLoop.induct) (auto split: prod.splits)

lemma monitorLoop_stays:
  "\<not> list_ex leavesLoop schedule \<Longrightarrow> fst (monitorLoop schedule pid) = None"
  by (induction schedule pid rule: monitorLoop.induct) (auto split: prod.splits)

text \<open>
  The monitor of the cleanup variant destroys the container exactly when it leaves its
  loop without blocking; the monitor of lxc.go never does.
\<close>

lemma run_destroys_iff:
  "(CallDestroy \<in> set (snd (fst (run env schedule h)))) =
     (fst (fst (run env schedule h)) = Returned \<or> fst (fst (run env schedule h)) = Panicked)"
  using monitorLoop_no_destroy [of schedule "initPid h"]
  by (auto simp: run_def cleanupContainer_def split: prod.splits option.splits)

lemma run_lxc_go_never_destroys: "CallDestroy \<notin> set (snd (fst (run_lxc_go schedule h)))"
  using monitorLoop_no_destroy [of schedule "initPid h"]
  by (auto simp: run_lxc_go_def split: prod.splits option.splits)

text \<open>
  C1. \<open>Kill\<close> should never destroy the container, in either variant. In the lxc.go
  variant it does: on the sample handle, whose container shuts down on request, \<open>Kill\<close>
  calls \<open>Destroy\<close> before it closes \<open>doneCh\<close>.
\<close>

theorem Kill_lxc_go_destroys:
  "fst (Kill_lxc_go sampleContainer sampleHandle) =
     (Ok (), [CallRunning, CallShutdown 5, CallDestroy, CloseDoneCh]) \<and>
   CallDestroy \<in> set (snd (fst (Kill_lxc_go sampleContainer sampleHandle)))"
  by (simp add: Kill_lxc_go_def sampleContainer_def sampleHandle_def newHandle_def)

text \<open>
  C1, as the code has it. In the cleanup variant \<open>Kill\<close> never destroys the
  container: it asks whether the container runs, at most shuts it down and stops it,
  and closes \<open>doneCh\<close>; the destruction is in \<open>cleanupContainer\<close>, which the monitor
  calls when it leaves its loop. In the lxc.go variant \<open>Kill\<close> destroys the container
  itself, unless the container runs and can neither be shut down nor stopped, and the
  monitor destroys nothing.
\<close>

theorem Kill_destroy_ownership:
  "CallDestroy \<notin> set (snd (fst (Kill env h))) \<and>
   set (snd (fst (Kill env h)))
     \<subseteq> {CallRunning, CallShutdown (killTimeout h), CallStop, CloseDoneCh} \<and>
   snd (cleanupContainer env h) = [CallWaitStopped, CallDestroy] \<and>
   (CallDestroy \<in> set (snd (fst (run env schedule h)))) =
     (fst (fst (run env schedule h)) = Returned \<or> fst (fst (run env schedule h)) = Panicked) \<and>
   (CallDestroy \<in> set (snd (fst (Kill_lxc_go env h)))) =
     (envShutdownOk env \<or> envStopOk env \<or> \<not> envRunning env) \<and>
   CallDestroy \<notin> set (snd (fst (run_lxc_go schedule h)))"
proof (intro conjI)
  show "CallDestroy \<notin> set (snd (fst (Kill env h)))"
    by (simp add: Kill_def)
  show "set (snd (fst (Kill env h)))
          \<subseteq> {CallRunning, CallShutdown (killTimeout h), CallStop, CloseDoneCh}"
    by (simp add: Kill_def)
  show "snd (cleanupContainer env h) = [CallWaitStopped, CallDestroy]"
    by (simp add: cleanupContainer_def)
  show "(CallDestroy \<in> set (snd (fst (run env schedule h)))) =
     (fst (fst (run env schedule h)) = Returned \<or> fst (fst (run env schedule h)) = Panicked)"
    by (rule run_destroys_iff)
  show "(CallDestroy \<in> set (snd (fst (Kill_lxc_go env h)))) =
     (envShutdownOk env \<or> envStopOk env \<or> \<not> envRunning env)"
    by (auto simp: Kill_lxc_go_def)
  show "CallDestroy \<notin> set (snd (fst (run_lxc_go schedule h)))"
    by (rule run_lxc_go_never_destroys)
qed

text \<open>
  After a \<open>Kill\<close> of the lxc.go variant that succeeded, a second one does not: it
  fails on \<open>Destroy\<close> or panics on \<open>close(h.doneCh)\<close>.
\<close>

lemma Kill_lxc_go_twice:
  "fst (fst (Kill_lxc_go env1 h)) = Ok () \<Longrightarrow>
     fst (fst (Kill_lxc_go env2 (snd (Kill_lxc_go env1 h)))) \<noteq> Ok ()"
  by (auto simp: Kill_lxc_go_def split: if_splits)

text \<open>
  C2. A second \<open>Kill\<close> on a handle should be a no-op that succeeds. In the cleanup
  variant the second call always panics, whatever the container answers to either
  call: the deferred \<open>close(h.doneCh)\<close> closes a channel that the first call closed.
\<close>

theorem Kill_twice_panics:
  "fst (fst (Kill env2 (snd (Kill env1 h)))) = Panic"
  by (simp add: Kill_def)

text \<open>
  C3. The close of \<open>waitCh\<close> should come only after the monitor's teardown. In the
  lxc.go variant the monitor has no teardown: when the init process of the sample
  handle no longer takes the signal 0, \<open>run\<close> sends the result and closes \<open>waitCh\<close>
  while the container has not been destroyed.
\<close>

theorem run_lxc_go_closes_without_teardown:
  "fst (run_lxc_go [TimerFired True True, TimerFired True False] sampleHandle) =
     (Returned, [FindProcess 4242, Signal0, TimerReset, FindProcess 4242, Signal0,
                 SendWaitCh (WaitResult None), CloseWaitCh]) \<and>
   CallDestroy \<notin> set (snd (fst (run_lxc_go [TimerFired True True, TimerFired True False]
                                    sampleHandle)))"
  by (simp add: run_lxc_go_def sampleHandle_def newHandle_def)

text \<open>
  C3, as the code has it. On a handle whose \<open>waitCh\<close> is fresh, a monitor that meets a
  wake-up on which it leaves its loop (the process is gone, or \<open>doneCh\<close> is ready) sends
  exactly one result on \<open>waitCh\<close> and then closes it, once, as its last step; before the
  send it only probes the process. In the cleanup variant the teardown
  (\<open>cleanupContainer\<close>: the wait for the stop and the destroy) stands between the send
  and the close; in the lxc.go variant nothing does. A monitor that meets no such
  wake-up stays in its loop: it sends nothing and closes nothing.
\<close>

theorem run_publishes_once:
  assumes "waitCh h = ChanOpen" and "waitBuf h = []"
  shows "(list_ex leavesLoop schedule \<longrightarrow>
           (\<exists>w pre. list_all isProbe pre \<and>
              run env schedule h =
                ((Returned, pre @ [SendWaitCh w, CallWaitStopped, CallDestroy, CloseWaitCh]),
                 h\<lparr>waitBuf := [w], waitCh := ChanClosed\<rparr>) \<and>
              run_lxc_go schedule h =
                ((Returned, pre @ [SendWaitCh w, CloseWaitCh]),
                 h\<lparr>waitBuf := [w], waitCh := ChanClosed\<rparr>))) \<and>
         (\<not> list_ex leavesLoop schedule \<longrightarrow>
           fst (fst (run env schedule h)) = StillLooping \<and>
           list_all isProbe (snd (fst (run env schedule h))) \<and>
           snd (run env schedule h) = h \<and>
           run_lxc_go schedule h = run env schedule h)"
proof (intro conjI impI)
  assume "list_ex leavesLoop schedule"
  then obtain w where w: "fst (monitorLoop schedule (initPid h)) = Some w"
    using monitorLoop_leaves by blast
  define pre where "pre = snd (monitorLoop schedule (initPid h))"
  with w have m: "monitorLoop schedule (initPid h) = (Some w, pre)"
    by (simp add: prod_eq_iff)
  have "list_all isProbe pre"
    unfolding pre_def by (rule monitorLoop_probes)
  moreover from m assms have "run env schedule h =
      ((Returned, pre @ [SendWaitCh w, CallWaitStopped, CallDestroy, CloseWaitCh]),
       h\<lparr>waitBuf := [w], waitCh := ChanClosed\<rparr>)"
    by (simp add: run_def cleanupContainer_def)
  moreover from m assms have "run_lxc_go schedule h =
      ((Returned, pre @ [SendWaitCh w, CloseWaitCh]), h\<lparr>waitBuf := [w], waitCh := ChanClosed\<rparr>)"
    by (simp add: run_lxc_go_def)
  ultimately show "\<exists>w pre. list_all isProbe pre \<and>
              run env schedule h =
                ((Returned, pre @ [SendWaitCh w, CallWaitStopped, CallDestroy, CloseWaitCh]),
                 h\<lparr>waitBuf := [w], waitCh := ChanClosed\<rparr>) \<and>
              run_lxc_go schedule h =
                ((Returned, pre @ [SendWaitCh w, CloseWaitCh]),
                 h\<lparr>waitBuf := [w], waitCh := ChanClosed\<rparr>)"
    by blast
next
  assume "\<not> list_ex leavesLoop schedule"
  then have n: "fst (monitorLoop schedule (initPid h)) = None"
    by (rule monitorLoop_stays)
  then have m: "monitorLoop schedule (initPid h) = (None, snd (monitorLoop schedule (initPid h)))"
    by (simp add: prod_eq_iff)
  have r: "run env schedule h = ((StillLooping, snd (monitorLoop schedule (initPid h))), h)"
    by (subst run_def, subst m) simp
  have l: "run_lxc_go schedule h = ((StillLooping, snd (monitorLoop schedule (initPid h))), h)"
    by (subst run_lxc_go_def, subst m) simp
  show "fst (fst (run env schedule h)) = StillLooping" by (simp add: r)
  show "list_all isProbe (snd (fst (run env schedule h)))"
    by (simp add: r monitorLoop_probes)
  show "snd (run env schedule h) = h" by (simp add: r)
  show "run_lxc_go schedule h = run env schedule h" by (simp add: r l)
qed

theorem run_publishes_once_witness:
  "waitCh sampleHandle = ChanOpen \<and> waitBuf sampleHandle = [] \<and>
   list_ex leavesLoop [TimerFired True True, DoneChReady] \<and>
   \<not> list_ex leavesLoop [TimerFired True True] \<and>
   (\<exists>w pre. list_all isProbe pre \<and>
      run sampleContainer [TimerFired True True, DoneChReady] sampleHandle =
        ((Returned, pre @ [SendWaitCh w, CallWaitStopped, CallDestroy, CloseWaitCh]),
         sampleHandle\<lparr>waitBuf := [w], waitCh := ChanClosed\<rparr>) \<and>
      run_lxc_go [TimerFired True True, DoneChReady] sampleHandle =
        ((Returned, pre @ [SendWaitCh w, CloseWaitCh]),
         sampleHandle\<lparr>waitBuf := [w], waitCh := ChanClosed\<rparr>)) \<and>
   fst (fst (run sampleContainer [TimerFired True True] sampleHandle)) = StillLooping"
proof -
  have a: "waitCh sampleHandle = ChanOpen" "waitBuf sampleHandle = []"
    by (simp_all add: sampleHandle_def newHandle_def)
  have b: "list_ex leavesLoop [TimerFired True True, DoneChReady]"
    "\<not> list_ex leavesLoop [TimerFired True True]"
    by simp_all
  from a b
    run_publishes_once [OF a, of "[TimerFired True True, DoneChReady]" sampleContainer]
    run_publishes_once [OF a, of "[TimerFired True True]" sampleContainer]
  show ?thesis by blast
qed

subsection \<open>The clone strategy\<close>

text \<open>
  Up to the prefix check: a base path of fewer than four bytes makes the slice
  expression panic; a base path of four bytes or more that does not start with
  \<open>lvm:\<close> is refused, and nothing but the directory has been created.
\<close>

lemma executeContainer_short_path:
  assumes "decodeExecuteOk env" "mkdirOk env" "length (BaseRootFsPath t) < 4"
  shows "executeContainer env d t = ((Panic, noCleanup), [MkdirAll])"
    and "executeContainer_lxc_go env d t = (Panic, [MkdirAll])"
  using assms by (simp_all add: executeContainer_def executeContainer_lxc_go_def slice_def Let_def)

lemma executeContainer_not_lvm:
  assumes "decodeExecuteOk env" "mkdirOk env"
    and "4 \<le> length (BaseRootFsPath t)" "take 4 (BaseRootFsPath t) \<noteq> ''lvm:''"
  shows "executeContainer env d t = ((Err OnlyLVMSupported, noCleanup), [MkdirAll])"
    and "executeContainer_lxc_go env d t = (Err OnlyLVMSupported, [MkdirAll])"
  using assms by (simp_all add: executeContainer_def executeContainer_lxc_go_def slice_def Let_def)

text \<open>
  When the volume group cannot be parsed, the snapshot exists and the closure that
  \<open>executeContainer\<close> returns is \<open>noCleanup\<close>: \<open>Start\<close> removes nothing.
\<close>

lemma executeContainer_vg_parse_error:
  assumes "decodeExecuteOk env" "mkdirOk env"
    and "4 \<le> length (BaseRootFsPath t)" "take 4 (BaseRootFsPath t) = ''lvm:''"
    and "lvcreate env = CmdOk" "extractVgName (drop 4 (BaseRootFsPath t)) = Err e"
  shows "executeContainer env d t =
           ((Err (VgParseError (drop 4 (BaseRootFsPath t))), noCleanup),
            [MkdirAll, LvCreate (getContainerName d t) (drop 4 (BaseRootFsPath t))])"
  using assms by (simp add: executeContainer_def slice_def Let_def)

text \<open>
  A failure one step later is rolled back: when the configuration file cannot be
  created, \<open>Start\<close> does remove the snapshot.
\<close>

lemma Start_create_file_error_removes_snapshot:
  "Start (sampleWorld\<lparr>createFileOk := False\<rparr>) sampleDriver (sampleTask ''lvm:vg0/base'') =
     (Err (CreateConfigError ''web-a1''),
      [MkdirAll, LvCreate ''web-a1'' ''vg0/base'', CreateConfigFile, LvRemove ''vg0/web-a1''])"
  by (simp add: Start_def startWithCleanup_def executeContainer_def slice_def Let_def
        extractVgName_def HasPrefix_def getContainerName_def cloneSteps_def
        run_removeLVCleanup_def sampleWorld_def sampleDriver_def sampleTask_def)

text \<open>
  C4. When the volume group cannot be parsed after the snapshot was created, the
  rollback should remove the snapshot. For the base \<open>lvm:base\<close> (a volume named
  without its group, which \<open>lvcreate\<close> resolves by its default group), \<open>Start\<close> creates
  the snapshot \<open>web-a1\<close>, fails with the parse error, and ends without any \<open>lvremove\<close>.
\<close>

theorem Start_vg_parse_error_leaves_snapshot:
  "Start sampleWorld sampleDriver (sampleTask ''lvm:base'') =
     (Err (VgParseError ''base''), [MkdirAll, LvCreate ''web-a1'' ''base''])"
  by (simp add: Start_def startWithCleanup_def executeContainer_def slice_def Let_def
        extractVgName_def HasPrefix_def getContainerName_def
        sampleWorld_def sampleDriver_def sampleTask_def)

text \<open>
  C5. A clone-mode base path without the prefix \<open>lvm:\<close> should be refused with the
  unsupported-backend error, also when it is shorter than four bytes. For the base
  path \<open>dir\<close> both variants of \<open>Start\<close> panic on \<open>BaseRootFsPath[:4]\<close>, after the
  container directory was created; for \<open>/srv/rootfs\<close> they return the error.
\<close>

theorem Start_short_base_path_panics:
  "Start sampleWorld sampleDriver (sampleTask ''dir'') = (Panic, [MkdirAll]) \<and>
   Start_lxc_go sampleWorld sampleDriver (sampleTask ''dir'') = (Panic, [MkdirAll]) \<and>
   Start sampleWorld sampleDriver (sampleTask ''/srv/rootfs'') =
     (Err OnlyLVMSupported, [MkdirAll]) \<and>
   Start_lxc_go sampleWorld sampleDriver (sampleTask ''/srv/rootfs'') =
     (Err OnlyLVMSupported, [MkdirAll])"
  by (simp add: Start_def Start_lxc_go_def startWithCleanup_def executeContainer_def
        executeContainer_lxc_go_def slice_def Let_def
        sampleWorld_def sampleDriver_def sampleTask_def)

end
